theory Spec2Isabelle
  imports Main "HOL-Library.AList" "HOL-Library.Sublist"
begin

section \<open>JavaScript values\<close>

text \<open>
  The values the two modules handle: client identifiers taken from a query string,
  column values of database rows, rendering contexts and form payloads. An object is
  the list of its own properties in the order \<open>Object.keys\<close> lists them (insertion
  order; that integer-like keys come first is not modelled); an array is an object of
  kind \<open>ArrayObject\<close> whose properties are its indices. Strings are sequences of
  8-bit characters (ASCII text). Functions and non-integer numbers are not modelled, and
  an object holds the properties assigned to it, not those it inherits.
\<close>

datatype obj_kind = PlainObject | ArrayObject

datatype jsval =
    JUndefined
  | JNull
  | JBool bool
  | JNum int
  | JStr string
  | JObj obj_kind "(string \<times> jsval) list"

type_synonym props = "(string \<times> jsval) list"

text \<open>JavaScript truthiness, as \<open>!x\<close> and \<open>Hoek.assert(x, ...)\<close> test it.\<close>

fun truthy :: "jsval \<Rightarrow> bool" where
  "truthy JUndefined = False"
| "truthy JNull = False"
| "truthy (JBool b) = b"
| "truthy (JNum n) = (n \<noteq> 0)"
| "truthy (JStr s) = (s \<noteq> [])"
| "truthy (JObj k ps) = True"

text \<open>\<open>obj[key]\<close>, and bookshelf's \<open>model.get(key)\<close>: \<open>undefined\<close> for an absent key.\<close>

definition get_attr :: "props \<Rightarrow> string \<Rightarrow> jsval" where
  "get_attr ps k = (case map_of ps k of None \<Rightarrow> JUndefined | Some v \<Rightarrow> v)"

text \<open>\<open>obj[key] = v\<close>: an existing key keeps its place, a new key goes last.\<close>

definition set_prop :: "string \<Rightarrow> jsval \<Rightarrow> props \<Rightarrow> props" where
  "set_prop k v ps = AList.update k v ps"

text \<open>
  \<open>Object.assign(target, ...sources)\<close>: the own properties of each source, in order,
  are assigned to the target.
\<close>

definition object_assign :: "props \<Rightarrow> props list \<Rightarrow> props" where
  "object_assign target sources =
     foldl (\<lambda>acc src. foldl (\<lambda>a (k, v). set_prop k v a) acc src) target sources"

section \<open>Errors, the world and awaited calls\<close>

datatype error =
    JsError string      \<comment> \<open>a plain \<open>Error\<close> with its message (what \<open>Hoek.assert\<close> throws)\<close>
  | TypeError string    \<comment> \<open>a property read on \<open>null\<close>\<close>
  | ENOENT string       \<comment> \<open>\<open>fs.readFile\<close> on a path that does not exist\<close>

text \<open>A database row is the list of its columns.\<close>

type_synonym row = props

datatype io_event =
    DbFetch string props    \<comment> \<open>\<open>bookshelf.model(name).where(cond).fetch()\<close>\<close>
  | ReadFile string         \<comment> \<open>\<open>fs.readFile(path)\<close>\<close>

text \<open>
  The persisted data (three tables and the files on disk) and the log of the I/O calls
  made so far.
\<close>

record world =
  clients :: "row list"
  templates :: "row list"
  layouts :: "row list"
  files :: "(string \<times> string) list"
  io_log :: "io_event list"

text \<open>
  An \<open>async\<close> function: it runs on a state and either throws (rejects) or returns
  (resolves), leaving a new state. \<open>io_bind\<close> is \<open>await\<close>: a rejection skips the rest.
\<close>

type_synonym ('s, 'a) io = "'s \<Rightarrow> (error + 'a) \<times> 's"

definition io_return :: "'a \<Rightarrow> ('s, 'a) io" where
  "io_return x = (\<lambda>s. (Inr x, s))"

definition io_throw :: "error \<Rightarrow> ('s, 'a) io" where
  "io_throw e = (\<lambda>s. (Inl e, s))"

definition io_bind :: "('s, 'a) io \<Rightarrow> ('a \<Rightarrow> ('s, 'b) io) \<Rightarrow> ('s, 'b) io" where
  "io_bind m f = (\<lambda>s. case m s of (Inl e, s') \<Rightarrow> (Inl e, s') | (Inr x, s') \<Rightarrow> f x s')"

text \<open>A synchronous call that may throw, inside an \<open>async\<close> function.\<close>

definition io_lift :: "error + 'a \<Rightarrow> ('s, 'a) io" where
  "io_lift r = (\<lambda>s. (r, s))"

definition log_event :: "io_event \<Rightarrow> world \<Rightarrow> world" where
  "log_event ev w = w\<lparr>io_log := io_log w @ [ev]\<rparr>"

text \<open>\<open>.where(cond).fetch()\<close>: the first row whose columns equal the condition's, or null.\<close>

definition where_fetch :: "row list \<Rightarrow> props \<Rightarrow> row option" where
  "where_fetch rows cond = find (\<lambda>r. list_all (\<lambda>(k, v). get_attr r k = v) cond) rows"

definition readFileAsync :: "string \<Rightarrow> (world, string) io" where
  "readFileAsync path = (\<lambda>w.
     (case map_of (files w) path of
        None \<Rightarrow> Inl (ENOENT path)
      | Some code \<Rightarrow> Inr code,
      log_event (ReadFile path) w))"

text \<open>\<open>Hoek.assert(condition, error)\<close> throws the error unless the condition is truthy.\<close>

definition hoek_assert :: "jsval \<Rightarrow> error \<Rightarrow> ('s, unit) io" where
  "hoek_assert condition err = (if truthy condition then io_return () else io_throw err)"

section \<open>The theme service\<close>

text \<open>
  A fetched template model: its row, and the \<open>layout\<close> relation loaded by
  \<open>withRelated\<close>.
\<close>

record template_model =
  attributes :: row
  layout :: "row option"

text \<open>
  What the module requires but this development does not hold: the \<open>defaultLayouts\<close>
  table, \<open>handlebars.compile\<close> (the compiled function parses on its first call, so a
  malformed source throws at rendering), the \<open>layout\<close> relation the template model
  declares, and the template model's \<open>render\<close> method. They are parameters.

  \<open>defaultLayouts e page\<close> is the lookup \<open>defaultLayouts[page]\<close> as a template literal
  prints it: \<open>None\<close> when the lookup is \<open>undefined\<close>, and otherwise the text of what it
  finds, be it an entry of the table or a property the table inherits (for the page
  \<open>constructor\<close>, the text of the function \<open>Object\<close>).
\<close>

record env =
  defaultLayouts :: "string \<Rightarrow> string option"
  handlebars_compile :: "string \<Rightarrow> props \<Rightarrow> error + string"
  layout_relation :: "row \<Rightarrow> row list \<Rightarrow> row option"
  template_render :: "template_model \<Rightarrow> string \<Rightarrow> props \<Rightarrow> error + string"

definition fetch_client :: "props \<Rightarrow> (world, row option) io" where
  "fetch_client cond = (\<lambda>w. (Inr (where_fetch (clients w) cond), log_event (DbFetch ''client'' cond) w))"

definition fetch_template :: "env \<Rightarrow> props \<Rightarrow> (world, template_model option) io" where
  "fetch_template e cond = (\<lambda>w.
     (Inr (map_option (\<lambda>r. \<lparr>attributes = r, layout = layout_relation e r (layouts w)\<rparr>)
             (where_fetch (templates w) cond)),
      log_event (DbFetch ''template'' cond) w))"

text \<open>The result \<open>false\<close> of \<open>fetchTemplate\<close> is \<open>None\<close>.\<close>

definition fetchTemplate :: "env \<Rightarrow> jsval \<Rightarrow> string \<Rightarrow> (world, template_model option) io" where
  "fetchTemplate e clientId page =
     io_bind (hoek_assert clientId (JsError ''clientId is required in ThemeService::fetchTemplate'')) (\<lambda>_.
     io_bind (fetch_client [(''client_id'', clientId)]) (\<lambda>client.
       case client of
         None \<Rightarrow> io_throw (TypeError ''Cannot read property get of null'')
       | Some c \<Rightarrow>
           if \<not> truthy (get_attr c ''theme_id'') then io_return None
           else io_bind (fetch_template e [(''theme_id'', get_attr c ''theme_id''), (''name'', JStr page)])
                  (\<lambda>template. io_return template)))"

record themed_template =
  template :: "template_model option"
  renderedTemplate :: string

text \<open>The template literal \<open>${defaultLayouts[page]}\<close>: \<open>undefined\<close> prints as \<open>undefined\<close>.\<close>

definition default_layout_path :: "env \<Rightarrow> string \<Rightarrow> string" where
  "default_layout_path e page =
     ''./templates/layout/'' @ (case defaultLayouts e page of None \<Rightarrow> ''undefined'' | Some l \<Rightarrow> l)"

definition default_page_path :: "string \<Rightarrow> string" where
  "default_page_path page = ''./templates/'' @ page @ ''.hbs''"

text \<open>
  The branch taken when there is no custom template: the default layout and the default
  page are read and compiled, the page is rendered with the context, and the layout is
  rendered with the context extended by \<open>content\<close>.
\<close>

definition default_rendering :: "env \<Rightarrow> string \<Rightarrow> props \<Rightarrow> (world, string) io" where
  "default_rendering e page ctx =
     io_bind (readFileAsync (default_layout_path e page)) (\<lambda>layoutCode.
     let layoutTemplate = handlebars_compile e layoutCode in
     io_bind (readFileAsync (default_page_path page)) (\<lambda>templateCode.
     let pageTemplate = handlebars_compile e templateCode in
     io_bind (io_lift (pageTemplate ctx)) (\<lambda>content.
     let layoutContext = object_assign [] [ctx, [(''content'', JStr content)]] in
     io_lift (layoutTemplate layoutContext))))"

definition getThemedTemplate :: "env \<Rightarrow> jsval \<Rightarrow> string \<Rightarrow> props \<Rightarrow> (world, themed_template) io" where
  "getThemedTemplate e clientId page ctx =
     io_bind (hoek_assert clientId (JsError ''clientId is required in ThemeService::getThemedTemplate'')) (\<lambda>_.
     io_bind (fetchTemplate e clientId page) (\<lambda>tpl.
     io_bind (case tpl of
                None \<Rightarrow> default_rendering e page ctx
              | Some t \<Rightarrow> io_lift (template_render e t page ctx)) (\<lambda>rendered.
     io_return \<lparr>template = tpl, renderedTemplate = rendered\<rparr>)))"

definition renderThemedTemplate :: "env \<Rightarrow> jsval \<Rightarrow> string \<Rightarrow> props \<Rightarrow> (world, string) io" where
  "renderThemedTemplate e clientId page ctx =
     io_bind (getThemedTemplate e clientId page ctx) (\<lambda>r. io_return (renderedTemplate r))"

text \<open>
  The default rendering as the specification words it: compile the default page file
  \<open>./templates/<page>.hbs\<close>, render it with the context, place the result into the
  context under the key \<open>content\<close>, and render the mapped default layout file
  \<open>./templates/layout/<name>\<close> with that context. A missing file is a file-not-found
  error.
\<close>

definition spec_default_html ::
  "(string \<Rightarrow> props \<Rightarrow> error + string) \<Rightarrow> (string \<times> string) list \<Rightarrow> string \<Rightarrow> string \<Rightarrow> props
     \<Rightarrow> error + string" where
  "spec_default_html compile fs layoutName page ctx =
     (case map_of fs (''./templates/layout/'' @ layoutName) of
        None \<Rightarrow> Inl (ENOENT (''./templates/layout/'' @ layoutName))
      | Some layoutCode \<Rightarrow>
     (case map_of fs (''./templates/'' @ page @ ''.hbs'') of
        None \<Rightarrow> Inl (ENOENT (''./templates/'' @ page @ ''.hbs''))
      | Some pageCode \<Rightarrow>
     (case compile pageCode ctx of
        Inl err \<Rightarrow> Inl err
      | Inr content \<Rightarrow> compile layoutCode (AList.update ''content'' (JStr content) ctx))))"

subsection \<open>A small installation, for evaluating the service\<close>

text \<open>
  A stand-in for Handlebars, right on the sources used here: the source \<open>{{\<close> does
  not parse (the error is thrown at rendering), and any other source renders as itself
  with each \<open>{{{content}}}\<close> replaced by the context's \<open>content\<close> string.
\<close>

fun render_content :: "string \<Rightarrow> string \<Rightarrow> string" where
  "render_content c [] = []"
| "render_content c (x # xs) =
     (if take 13 (x # xs) = ''{{{content}}}'' then c @ render_content c (drop 12 xs)
      else x # render_content c xs)"

definition example_compile :: "string \<Rightarrow> props \<Rightarrow> error + string" where
  "example_compile code ctx =
     (if code = ''{{'' then Inl (JsError ''Parse error on line 1'')
      else Inr (render_content (case get_attr ctx ''content'' of JStr s \<Rightarrow> s | _ \<Rightarrow> []) code))"

text \<open>
  A \<open>defaultLayouts\<close> table written as an object literal with two entries. The other
  lookups that are not \<open>undefined\<close> are the properties every plain object inherits: they
  print as the text of a native function, and \<open>__proto__\<close> as \<open>[object Object]\<close>.
\<close>

definition example_defaultLayouts :: "string \<Rightarrow> string option" where
  "example_defaultLayouts =
     map_of ([(''forgot-password'', ''default.hbs''), (''broken'', ''default.hbs''),
              (''constructor'', ''function Object() { [native code] }''),
              (''__proto__'', ''[object Object]'')] @
             map (\<lambda>n. (n, ''function '' @ n @ ''() { [native code] }''))
               [''__defineGetter__'', ''__defineSetter__'', ''hasOwnProperty'', ''__lookupGetter__'',
                ''__lookupSetter__'', ''isPrototypeOf'', ''propertyIsEnumerable'', ''toString'',
                ''valueOf'', ''toLocaleString''])"

definition example_env :: env where
  "example_env = \<lparr>
     defaultLayouts = example_defaultLayouts,
     handlebars_compile = example_compile,
     layout_relation = (\<lambda>t ls. find (\<lambda>l. get_attr l ''id'' = get_attr t ''layout_id'') ls),
     template_render = (\<lambda>t page ctx. Inr (''custom:'' @ page))\<rparr>"

text \<open>
  Two clients, one without a theme; default files for the page \<open>forgot-password\<close>; and
  a page \<open>broken\<close> whose default page file does not parse.
\<close>

definition example_world :: world where
  "example_world = \<lparr>
     clients = [[(''client_id'', JStr ''c1''), (''theme_id'', JNull)],
                [(''client_id'', JStr ''c2''), (''theme_id'', JNum 7)]],
     templates = [[(''id'', JNum 1), (''theme_id'', JNum 7), (''name'', JStr ''forgot-password''),
                   (''layout_id'', JNum 3)]],
     layouts = [[(''id'', JNum 3), (''code'', JStr ''<html>'')]],
     files = [(''./templates/layout/default.hbs'', ''<html>{{{content}}}</html>''),
              (''./templates/forgot-password.hbs'', ''<form></form>''),
              (''./templates/broken.hbs'', ''{{'')],
     io_log = []\<rparr>"

section \<open>The user controller\<close>




subsection \<open>A recording application, for evaluating the controller\<close>

text \<open>
  A state that records what the collaborators did: the stored password of each user, the
  password-change emails sent, and the errors \<open>render\<close> was called with. Passwords are
  compared with the stored hash of a stand-in hash function.
\<close>

record app =
  passwords :: "(jsval \<times> jsval) list"
  outbox :: "(jsval \<times> jsval) list"
  rendered :: "jsval list"






section \<open>Expanding dotted keys\<close>

subsection \<open>lodash's path syntax\<close>














subsection \<open>lodash's \<open>set\<close>\<close>



subsection \<open>\<open>expandDotPaths\<close>\<close>





subsection \<open>A runtime, for evaluating \<open>expandDotPaths\<close>\<close>


section \<open>Properties of the theme service\<close>

subsection \<open>The calls unfolded\<close>

lemma fetchTemplate_falsy:
  "\<not> truthy clientId \<Longrightarrow> fetchTemplate e clientId page w =
     (Inl (JsError ''clientId is required in ThemeService::fetchTemplate''), w)"
  by (simp add: fetchTemplate_def hoek_assert_def io_bind_def io_throw_def)

lemma fetchTemplate_truthy:
  "truthy clientId \<Longrightarrow> fetchTemplate e clientId page w =
     (let w1 = log_event (DbFetch ''client'' [(''client_id'', clientId)]) w in
      case where_fetch (clients w) [(''client_id'', clientId)] of
        None \<Rightarrow> (Inl (TypeError ''Cannot read property get of null''), w1)
      | Some c \<Rightarrow>
          if \<not> truthy (get_attr c ''theme_id'') then (Inr None, w1)
          else (Inr (map_option (\<lambda>r. \<lparr>attributes = r, layout = layout_relation e r (layouts w)\<rparr>)
                   (where_fetch (templates w) [(''theme_id'', get_attr c ''theme_id''), (''name'', JStr page)])),
                log_event (DbFetch ''template'' [(''theme_id'', get_attr c ''theme_id''), (''name'', JStr page)]) w1))"
  by (simp add: fetchTemplate_def hoek_assert_def io_bind_def fetch_client_def fetch_template_def
      io_return_def io_throw_def log_event_def split: option.splits)

lemma default_rendering_fst:
  "fst (default_rendering e page ctx w) =
     (case map_of (files w) (default_layout_path e page) of
        None \<Rightarrow> Inl (ENOENT (default_layout_path e page))
      | Some layoutCode \<Rightarrow>
     (case map_of (files w) (default_page_path page) of
        None \<Rightarrow> Inl (ENOENT (default_page_path page))
      | Some templateCode \<Rightarrow>
     (case handlebars_compile e templateCode ctx of
        Inl err \<Rightarrow> Inl err
      | Inr content \<Rightarrow>
          handlebars_compile e layoutCode (object_assign [] [ctx, [(''content'', JStr content)]]))))"
  by (simp add: default_rendering_def io_bind_def readFileAsync_def io_lift_def log_event_def
      split: option.splits sum.splits)

lemma default_rendering_snd:
  "snd (default_rendering e page ctx w) =
     w\<lparr>io_log := io_log w @
        (case map_of (files w) (default_layout_path e page) of
           None \<Rightarrow> [ReadFile (default_layout_path e page)]
         | Some layoutCode \<Rightarrow> [ReadFile (default_layout_path e page), ReadFile (default_page_path page)])\<rparr>"
  by (simp add: default_rendering_def io_bind_def readFileAsync_def io_lift_def log_event_def
      split: option.splits sum.splits)

lemma getThemedTemplate_falsy:
  "\<not> truthy clientId \<Longrightarrow> getThemedTemplate e clientId page ctx w =
     (Inl (JsError ''clientId is required in ThemeService::getThemedTemplate''), w)"
  by (simp add: getThemedTemplate_def hoek_assert_def io_bind_def io_throw_def)

lemma getThemedTemplate_truthy:
  "truthy clientId \<Longrightarrow> getThemedTemplate e clientId page ctx w =
     (case fetchTemplate e clientId page w of
        (Inl err, w1) \<Rightarrow> (Inl err, w1)
      | (Inr None, w1) \<Rightarrow>
          (map_sum id (\<lambda>h. \<lparr>template = None, renderedTemplate = h\<rparr>) (fst (default_rendering e page ctx w1)),
           snd (default_rendering e page ctx w1))
      | (Inr (Some t), w1) \<Rightarrow>
          (map_sum id (\<lambda>h. \<lparr>template = Some t, renderedTemplate = h\<rparr>) (template_render e t page ctx), w1))"
  by (simp add: getThemedTemplate_def hoek_assert_def io_bind_def io_return_def io_lift_def
      split: option.splits sum.splits prod.splits)

lemma renderThemedTemplate_eq:
  "renderThemedTemplate e clientId page ctx w =
     (map_sum id renderedTemplate (fst (getThemedTemplate e clientId page ctx w)),
      snd (getThemedTemplate e clientId page ctx w))"
  by (simp add: renderThemedTemplate_def io_bind_def io_return_def split: prod.splits sum.splits)

lemma where_fetch_None_iff:
  "where_fetch rows cond = None \<longleftrightarrow> (\<forall>r \<in> set rows. \<not> list_all (\<lambda>(k, v). get_attr r k = v) cond)"
  by (auto simp: where_fetch_def find_None_iff)

lemma where_fetch_SomeD:
  "where_fetch rows cond = Some r \<Longrightarrow> r \<in> set rows \<and> list_all (\<lambda>(k, v). get_attr r k = v) cond"
  by (auto simp: where_fetch_def find_Some_iff)

lemma foldl_set_prop_append:
  "distinct (map fst (acc @ ps)) \<Longrightarrow> foldl (\<lambda>a (k, v). set_prop k v a) acc ps = acc @ ps"
proof (induction ps arbitrary: acc)
  case Nil
  then show ?case by simp
next
  case (Cons p ps)
  obtain k v where p: "p = (k, v)" by (cases p)
  from Cons.prems p have "k \<notin> fst ` set acc" by auto
  then have upd: "set_prop k v acc = acc @ [(k, v)]"
    by (induction acc) (auto simp: set_prop_def)
  from Cons.prems p have "distinct (map fst ((acc @ [(k, v)]) @ ps))" by simp
  then have "foldl (\<lambda>a (k, v). set_prop k v a) (acc @ [(k, v)]) ps = (acc @ [(k, v)]) @ ps"
    by (rule Cons.IH)
  with upd p show ?case by simp
qed

lemma object_assign_content:
  "distinct (map fst ctx) \<Longrightarrow> object_assign [] [ctx, [(k, v)]] = AList.update k v ctx"
  using foldl_set_prop_append [of "[]" ctx] by (simp add: object_assign_def set_prop_def)


subsection \<open>Resolving a client's template\<close>

text \<open>
  Claim C1. For a client record present in the store (the row \<open>fetchTemplate\<close> fetches
  for a truthy identifier) and every page name: \<open>fetchTemplate\<close> returns false when the
  client has no theme reference (a null \<open>theme_id\<close>, and any other falsy one), returns
  false when no template of the client's theme is named \<open>page\<close>, and otherwise returns
  a matching template row of that theme together with its \<open>layout\<close> relation.
\<close>

theorem fetchTemplate_scenarios:
  assumes "truthy clientId"
    and "where_fetch (clients w) [(''client_id'', clientId)] = Some c"
  shows "(get_attr c ''theme_id'' = JNull \<longrightarrow> fst (fetchTemplate e clientId page w) = Inr None) \<and>
         (\<not> truthy (get_attr c ''theme_id'') \<longrightarrow> fst (fetchTemplate e clientId page w) = Inr None) \<and>
         ((\<forall>t \<in> set (templates w).
             get_attr t ''theme_id'' = get_attr c ''theme_id'' \<longrightarrow> get_attr t ''name'' \<noteq> JStr page)
           \<longrightarrow> fst (fetchTemplate e clientId page w) = Inr None) \<and>
         (truthy (get_attr c ''theme_id'') \<and>
          (\<exists>t \<in> set (templates w).
             get_attr t ''theme_id'' = get_attr c ''theme_id'' \<and> get_attr t ''name'' = JStr page)
           \<longrightarrow> (\<exists>t. t \<in> set (templates w) \<and> get_attr t ''theme_id'' = get_attr c ''theme_id'' \<and>
                   get_attr t ''name'' = JStr page \<and>
                   fst (fetchTemplate e clientId page w) =
                     Inr (Some \<lparr>attributes = t, layout = layout_relation e t (layouts w)\<rparr>)))"
proof -
  let ?cond = "[(''theme_id'', get_attr c ''theme_id''), (''name'', JStr page)]"
  have falsy: "fst (fetchTemplate e clientId page w) = Inr None" if "\<not> truthy (get_attr c ''theme_id'')"
    using assms that by (simp add: fetchTemplate_truthy Let_def)
  have null: "fst (fetchTemplate e clientId page w) = Inr None" if "get_attr c ''theme_id'' = JNull"
    using falsy that by simp
  have absent: "fst (fetchTemplate e clientId page w) = Inr None"
    if "\<forall>t \<in> set (templates w).
          get_attr t ''theme_id'' = get_attr c ''theme_id'' \<longrightarrow> get_attr t ''name'' \<noteq> JStr page"
  proof -
    from that have "where_fetch (templates w) ?cond = None"
      by (auto simp: where_fetch_None_iff)
    with assms show ?thesis by (simp add: fetchTemplate_truthy Let_def)
  qed
  have found: "\<exists>t. t \<in> set (templates w) \<and> get_attr t ''theme_id'' = get_attr c ''theme_id'' \<and>
                   get_attr t ''name'' = JStr page \<and>
                   fst (fetchTemplate e clientId page w) =
                     Inr (Some \<lparr>attributes = t, layout = layout_relation e t (layouts w)\<rparr>)"
    if th: "truthy (get_attr c ''theme_id'')"
      and ex: "\<exists>t \<in> set (templates w).
          get_attr t ''theme_id'' = get_attr c ''theme_id'' \<and> get_attr t ''name'' = JStr page"
  proof -
    from ex have "where_fetch (templates w) ?cond \<noteq> None"
      by (auto simp: where_fetch_None_iff)
    then obtain t where t: "where_fetch (templates w) ?cond = Some t" by auto
    from where_fetch_SomeD [OF t]
    have "t \<in> set (templates w)" "get_attr t ''theme_id'' = get_attr c ''theme_id''"
      "get_attr t ''name'' = JStr page" by simp_all
    moreover from assms th t
    have "fst (fetchTemplate e clientId page w) =
            Inr (Some \<lparr>attributes = t, layout = layout_relation e t (layouts w)\<rparr>)"
      by (simp add: fetchTemplate_truthy Let_def)
    ultimately show ?thesis by blast
  qed
  from null falsy absent found show ?thesis by blast
qed

theorem fetchTemplate_scenarios_witness:
  "truthy (JStr ''c2'') \<and>
   where_fetch (clients example_world) [(''client_id'', JStr ''c2'')] =
     Some [(''client_id'', JStr ''c2''), (''theme_id'', JNum 7)] \<and>
   fst (fetchTemplate example_env (JStr ''c2'') ''no-such-page'' example_world) = Inr None \<and>
   (\<exists>t. t \<in> set (templates example_world) \<and> get_attr t ''theme_id'' = JNum 7 \<and>
        get_attr t ''name'' = JStr ''forgot-password'' \<and>
        fst (fetchTemplate example_env (JStr ''c2'') ''forgot-password'' example_world) =
          Inr (Some \<lparr>attributes = t, layout = layout_relation example_env t (layouts example_world)\<rparr>))"
proof -
  let ?c = "[(''client_id'', JStr ''c2''), (''theme_id'', JNum 7)]"
  have h1: "truthy (JStr ''c2'')" by simp
  have h2: "where_fetch (clients example_world) [(''client_id'', JStr ''c2'')] = Some ?c"
    by (simp add: example_world_def where_fetch_def get_attr_def)
  have th: "get_attr ?c ''theme_id'' = JNum 7" by (simp add: get_attr_def)
  have none: "\<forall>t \<in> set (templates example_world).
                get_attr t ''theme_id'' = get_attr ?c ''theme_id'' \<longrightarrow> get_attr t ''name'' \<noteq> JStr ''no-such-page''"
    by (simp add: example_world_def get_attr_def)
  have some: "truthy (get_attr ?c ''theme_id'') \<and>
     (\<exists>t \<in> set (templates example_world).
        get_attr t ''theme_id'' = get_attr ?c ''theme_id'' \<and> get_attr t ''name'' = JStr ''forgot-password'')"
    by (simp add: example_world_def get_attr_def)
  from fetchTemplate_scenarios [OF h1 h2, of example_env "''no-such-page''"] none
  have a: "fst (fetchTemplate example_env (JStr ''c2'') ''no-such-page'' example_world) = Inr None"
    by blast
  from fetchTemplate_scenarios [OF h1 h2, of example_env "''forgot-password''"] some
  have b: "\<exists>t. t \<in> set (templates example_world) \<and> get_attr t ''theme_id'' = get_attr ?c ''theme_id'' \<and>
        get_attr t ''name'' = JStr ''forgot-password'' \<and>
        fst (fetchTemplate example_env (JStr ''c2'') ''forgot-password'' example_world) =
          Inr (Some \<lparr>attributes = t, layout = layout_relation example_env t (layouts example_world)\<rparr>)"
    by blast
  from h1 h2 a b th show ?thesis by simp
qed

subsection \<open>The default rendering\<close>

lemma fetchTemplate_Inr_truthy:
  "fst (fetchTemplate e clientId page w) = Inr r \<Longrightarrow> truthy clientId"
  by (rule ccontr) (simp add: fetchTemplate_falsy)

lemma fetchTemplate_files: "files (snd (fetchTemplate e clientId page w)) = files w"
proof (cases "truthy clientId")
  case True
  then show ?thesis
    by (simp add: fetchTemplate_truthy log_event_def Let_def split: option.splits)
next
  case False
  then show ?thesis by (simp add: fetchTemplate_falsy)
qed

lemma getThemedTemplate_no_template:
  assumes "fst (fetchTemplate e clientId page w) = Inr None"
  shows "fst (getThemedTemplate e clientId page ctx w) =
           map_sum id (\<lambda>h. \<lparr>template = None, renderedTemplate = h\<rparr>)
             (fst (default_rendering e page ctx (snd (fetchTemplate e clientId page w))))"
proof -
  from assms have t: "truthy clientId" by (rule fetchTemplate_Inr_truthy)
  obtain w1 where f: "fetchTemplate e clientId page w = (Inr None, w1)"
    using assms by (cases "fetchTemplate e clientId page w") simp
  with t show ?thesis by (simp add: getThemedTemplate_truthy)
qed

lemma spec_default_html_eq:
  assumes "defaultLayouts e page = Some layoutName" and "distinct (map fst ctx)"
    and "files w1 = fs"
  shows "fst (default_rendering e page ctx w1) =
           spec_default_html (handlebars_compile e) fs layoutName page ctx"
  using assms
  by (simp add: default_rendering_fst spec_default_html_def default_layout_path_def
      default_page_path_def object_assign_content split: option.splits sum.splits)

text \<open>
  Claim C2. For every client with no custom template for the page (\<open>fetchTemplate\<close>
  returns false) and every rendering context (an object, so its keys are distinct),
  \<open>getThemedTemplate\<close> yields what the specification's words describe: the default page
  file compiled and rendered with the context, the result placed into the context under
  \<open>content\<close>, and the page's mapped default layout rendered with that context.
\<close>

theorem getThemedTemplate_default_html:
  assumes "fst (fetchTemplate e clientId page w) = Inr None"
    and "defaultLayouts e page = Some layoutName"
    and "distinct (map fst ctx)"
  shows "fst (getThemedTemplate e clientId page ctx w) =
           map_sum id (\<lambda>html. \<lparr>template = None, renderedTemplate = html\<rparr>)
             (spec_default_html (handlebars_compile e) (files w) layoutName page ctx)"
proof -
  have "fst (default_rendering e page ctx (snd (fetchTemplate e clientId page w))) =
          spec_default_html (handlebars_compile e) (files w) layoutName page ctx"
    using assms(2,3) fetchTemplate_files by (rule spec_default_html_eq)
  with getThemedTemplate_no_template [OF assms(1)] show ?thesis by simp
qed

lemma example_c1_no_template:
  "fst (fetchTemplate example_env (JStr ''c1'') page example_world) = Inr None"
  by (simp add: fetchTemplate_truthy example_world_def where_fetch_def get_attr_def Let_def)

theorem getThemedTemplate_default_html_witness:
  "fst (fetchTemplate example_env (JStr ''c1'') ''forgot-password'' example_world) = Inr None \<and>
   defaultLayouts example_env ''forgot-password'' = Some ''default.hbs'' \<and>
   distinct (map fst [(''email'', JObj ArrayObject [(''0'', JStr ''bad'')])]) \<and>
   fst (getThemedTemplate example_env (JStr ''c1'') ''forgot-password''
          [(''email'', JObj ArrayObject [(''0'', JStr ''bad'')])] example_world) =
     Inr \<lparr>template = None, renderedTemplate = ''<html><form></form></html>''\<rparr>"
proof -
  let ?ctx = "[(''email'', JObj ArrayObject [(''0'', JStr ''bad'')])]"
  have h2: "defaultLayouts example_env ''forgot-password'' = Some ''default.hbs''"
    by (simp add: example_env_def example_defaultLayouts_def)
  have h3: "distinct (map fst ?ctx)" by simp
  have "spec_default_html (handlebars_compile example_env) (files example_world) ''default.hbs''
          ''forgot-password'' ?ctx = Inr ''<html><form></form></html>''"
    by (simp add: spec_default_html_def example_env_def example_world_def example_compile_def get_attr_def)
  with getThemedTemplate_default_html [OF example_c1_no_template h2 h3] example_c1_no_template h2 h3
  show ?thesis by simp
qed

lemma getThemedTemplate_render_independent:
  assumes "fst (fetchTemplate e clientId page w) = Inr None"
  shows "getThemedTemplate (e\<lparr>template_render := f\<rparr>) clientId page ctx w =
         getThemedTemplate e clientId page ctx w"
proof -
  from assms have t: "truthy clientId" by (rule fetchTemplate_Inr_truthy)
  have same: "fetchTemplate (e\<lparr>template_render := f\<rparr>) clientId page w = fetchTemplate e clientId page w"
    by (simp add: fetchTemplate_def fetch_template_def cong: option.case_cong if_cong)
  have dr: "default_rendering (e\<lparr>template_render := f\<rparr>) page ctx = default_rendering e page ctx"
    by (simp add: default_rendering_def default_layout_path_def)
  obtain w1 where f: "fetchTemplate e clientId page w = (Inr None, w1)"
    using assms by (cases "fetchTemplate e clientId page w") simp
  with t same dr show ?thesis by (simp add: getThemedTemplate_truthy)
qed

lemma fetchTemplate_no_theme_or_template:
  assumes "truthy clientId"
    and "where_fetch (clients w) [(''client_id'', clientId)] = Some c"
    and "\<not> truthy (get_attr c ''theme_id'') \<or>
         (\<forall>t \<in> set (templates w).
            get_attr t ''theme_id'' = get_attr c ''theme_id'' \<longrightarrow> get_attr t ''name'' \<noteq> JStr page)"
  shows "fst (fetchTemplate e clientId page w) = Inr None"
proof (cases "truthy (get_attr c ''theme_id'')")
  case True
  with assms(3) have "where_fetch (templates w) [(''theme_id'', get_attr c ''theme_id''), (''name'', JStr page)] = None"
    by (auto simp: where_fetch_None_iff)
  with assms(1,2) show ?thesis by (simp add: fetchTemplate_truthy Let_def)
next
  case False
  with assms(1,2) show ?thesis by (simp add: fetchTemplate_truthy Let_def)
qed

lemma no_template_outcome:
  assumes "fst (fetchTemplate e clientId page w) = Inr None"
  shows "fst (getThemedTemplate e clientId page ctx w) =
           (case map_of (files w) (default_layout_path e page) of
              None \<Rightarrow> Inl (ENOENT (default_layout_path e page))
            | Some layoutCode \<Rightarrow>
           (case map_of (files w) (default_page_path page) of
              None \<Rightarrow> Inl (ENOENT (default_page_path page))
            | Some templateCode \<Rightarrow>
           (case handlebars_compile e templateCode ctx of
              Inl err \<Rightarrow> Inl err
            | Inr content \<Rightarrow>
           (case handlebars_compile e layoutCode (object_assign [] [ctx, [(''content'', JStr content)]]) of
              Inl err \<Rightarrow> Inl err
            | Inr html \<Rightarrow> Inr \<lparr>template = None, renderedTemplate = html\<rparr>))))"
  by (simp add: getThemedTemplate_no_template [OF assms] default_rendering_fst fetchTemplate_files
      split: option.splits sum.splits)

text \<open>
  Claim C3, as the code has it. For every existing client with no theme, and every
  existing client whose theme has no template for the page, \<open>getThemedTemplate\<close> (and
  \<open>renderThemedTemplate\<close> through it) takes the default path and the custom template's
  \<open>render\<close> plays no part. It returns the default rendering, with the template
  \<open>false\<close>, when the default layout file and the default page file of the page exist and
  Handlebars renders both; otherwise it rejects, with file-not-found for the first file
  that is missing or with the error Handlebars threw.
\<close>

theorem getThemedTemplate_falls_back:
  assumes "truthy clientId"
    and "where_fetch (clients w) [(''client_id'', clientId)] = Some c"
    and "\<not> truthy (get_attr c ''theme_id'') \<or>
         (\<forall>t \<in> set (templates w).
            get_attr t ''theme_id'' = get_attr c ''theme_id'' \<longrightarrow> get_attr t ''name'' \<noteq> JStr page)"
  shows "getThemedTemplate (e\<lparr>template_render := f\<rparr>) clientId page ctx w =
           getThemedTemplate e clientId page ctx w \<and>
         fst (getThemedTemplate e clientId page ctx w) =
           (case map_of (files w) (default_layout_path e page) of
              None \<Rightarrow> Inl (ENOENT (default_layout_path e page))
            | Some layoutCode \<Rightarrow>
           (case map_of (files w) (default_page_path page) of
              None \<Rightarrow> Inl (ENOENT (default_page_path page))
            | Some templateCode \<Rightarrow>
           (case handlebars_compile e templateCode ctx of
              Inl err \<Rightarrow> Inl err
            | Inr content \<Rightarrow>
           (case handlebars_compile e layoutCode (object_assign [] [ctx, [(''content'', JStr content)]]) of
              Inl err \<Rightarrow> Inl err
            | Inr html \<Rightarrow> Inr \<lparr>template = None, renderedTemplate = html\<rparr>)))) \<and>
         fst (renderThemedTemplate e clientId page ctx w) =
           (case map_of (files w) (default_layout_path e page) of
              None \<Rightarrow> Inl (ENOENT (default_layout_path e page))
            | Some layoutCode \<Rightarrow>
           (case map_of (files w) (default_page_path page) of
              None \<Rightarrow> Inl (ENOENT (default_page_path page))
            | Some templateCode \<Rightarrow>
           (case handlebars_compile e templateCode ctx of
              Inl err \<Rightarrow> Inl err
            | Inr content \<Rightarrow>
               handlebars_compile e layoutCode (object_assign [] [ctx, [(''content'', JStr content)]]))))"
proof -
  have none: "fst (fetchTemplate e clientId page w) = Inr None"
    using assms by (rule fetchTemplate_no_theme_or_template)
  have a: "getThemedTemplate (e\<lparr>template_render := f\<rparr>) clientId page ctx w =
           getThemedTemplate e clientId page ctx w"
    using none by (rule getThemedTemplate_render_independent)
  note b = no_template_outcome [OF none, of ctx]
  have c: "fst (renderThemedTemplate e clientId page ctx w) =
           (case map_of (files w) (default_layout_path e page) of
              None \<Rightarrow> Inl (ENOENT (default_layout_path e page))
            | Some layoutCode \<Rightarrow>
           (case map_of (files w) (default_page_path page) of
              None \<Rightarrow> Inl (ENOENT (default_page_path page))
            | Some templateCode \<Rightarrow>
           (case handlebars_compile e templateCode ctx of
              Inl err \<Rightarrow> Inl err
            | Inr content \<Rightarrow>
               handlebars_compile e layoutCode (object_assign [] [ctx, [(''content'', JStr content)]]))))"
    by (simp add: renderThemedTemplate_eq b split: option.splits sum.splits)
  from a b c show ?thesis by blast
qed

theorem getThemedTemplate_falls_back_witness:
  "truthy (JStr ''c1'') \<and>
   where_fetch (clients example_world) [(''client_id'', JStr ''c1'')] =
     Some [(''client_id'', JStr ''c1''), (''theme_id'', JNull)] \<and>
   \<not> truthy (get_attr [(''client_id'', JStr ''c1''), (''theme_id'', JNull)] ''theme_id'') \<and>
   fst (getThemedTemplate example_env (JStr ''c1'') ''forgot-password'' [] example_world) =
     Inr \<lparr>template = None, renderedTemplate = ''<html><form></form></html>''\<rparr> \<and>
   fst (renderThemedTemplate example_env (JStr ''c1'') ''forgot-password'' [] example_world) =
     Inr ''<html><form></form></html>'' \<and>
   fst (renderThemedTemplate example_env (JStr ''c1'') ''constructor'' [] example_world) =
     Inl (ENOENT ''./templates/layout/function Object() { [native code] }'')"
proof -
  let ?c = "[(''client_id'', JStr ''c1''), (''theme_id'', JNull)]"
  have h1: "truthy (JStr ''c1'')" by simp
  have h2: "where_fetch (clients example_world) [(''client_id'', JStr ''c1'')] = Some ?c"
    by (simp add: example_world_def where_fetch_def get_attr_def)
  have h3: "\<not> truthy (get_attr ?c ''theme_id'')" by (simp add: get_attr_def)
  have paths:
    "default_layout_path example_env ''forgot-password'' = ''./templates/layout/default.hbs''"
    "default_page_path ''forgot-password'' = ''./templates/forgot-password.hbs''"
    "default_layout_path example_env ''constructor'' =
       ''./templates/layout/function Object() { [native code] }''"
    by (simp_all add: example_env_def example_defaultLayouts_def default_layout_path_def
        default_page_path_def)
  have files:
    "map_of (files example_world) ''./templates/layout/default.hbs'' = Some ''<html>{{{content}}}</html>''"
    "map_of (files example_world) ''./templates/forgot-password.hbs'' = Some ''<form></form>''"
    "map_of (files example_world) ''./templates/layout/function Object() { [native code] }'' = None"
    by (simp_all add: example_world_def)
  have renders:
    "handlebars_compile example_env ''<form></form>'' [] = Inr ''<form></form>''"
    "handlebars_compile example_env ''<html>{{{content}}}</html>''
       (object_assign [] [[], [(''content'', JStr ''<form></form>'')]]) =
       Inr ''<html><form></form></html>''"
    by (simp_all add: example_env_def example_compile_def get_attr_def object_assign_def set_prop_def)
  from h3 have h3': "\<not> truthy (get_attr ?c ''theme_id'') \<or>
         (\<forall>t \<in> set (templates example_world).
            get_attr t ''theme_id'' = get_attr ?c ''theme_id'' \<longrightarrow> get_attr t ''name'' \<noteq> JStr page)"
    for page by blast
  from getThemedTemplate_falls_back [OF h1 h2 h3', where e = example_env and ctx = "[]"]
  have "fst (getThemedTemplate example_env (JStr ''c1'') ''forgot-password'' [] example_world) =
          Inr \<lparr>template = None, renderedTemplate = ''<html><form></form></html>''\<rparr>"
    and "fst (renderThemedTemplate example_env (JStr ''c1'') ''forgot-password'' [] example_world) =
          Inr ''<html><form></form></html>''"
    by (simp_all add: paths files renders)
  moreover from getThemedTemplate_falls_back [OF h1 h2 h3', where e = example_env and ctx = "[]"]
  have "fst (renderThemedTemplate example_env (JStr ''c1'') ''constructor'' [] example_world) =
          Inl (ENOENT ''./templates/layout/function Object() { [native code] }'')"
    by (simp add: paths files)
  ultimately show ?thesis using h1 h2 h3 by blast
qed

text \<open>
  Claim C3 as stated fails: the fallback is not free of hard failures for every page
  name. A client with a null theme asks for a page with no default files, and the call
  rejects with the file-not-found error of the layout read; it asks for a page whose
  default files exist but whose page file does not parse, and the call rejects with the
  error Handlebars throws.
\<close>

theorem getThemedTemplate_hard_failure:
  "where_fetch (clients example_world) [(''client_id'', JStr ''c1'')] =
     Some [(''client_id'', JStr ''c1''), (''theme_id'', JNull)] \<and>
   fst (getThemedTemplate example_env (JStr ''c1'') ''no-such-page'' [] example_world) =
     Inl (ENOENT ''./templates/layout/undefined'') \<and>
   fst (renderThemedTemplate example_env (JStr ''c1'') ''no-such-page'' [] example_world) =
     Inl (ENOENT ''./templates/layout/undefined'') \<and>
   map_of (files example_world) (default_layout_path example_env ''broken'') =
     Some ''<html>{{{content}}}</html>'' \<and>
   map_of (files example_world) (default_page_path ''broken'') = Some ''{{'' \<and>
   fst (getThemedTemplate example_env (JStr ''c1'') ''broken'' [] example_world) =
     Inl (JsError ''Parse error on line 1'') \<and>
   fst (renderThemedTemplate example_env (JStr ''c1'') ''broken'' [] example_world) =
     Inl (JsError ''Parse error on line 1'')"
proof -
  have c: "where_fetch (clients example_world) [(''client_id'', JStr ''c1'')] =
     Some [(''client_id'', JStr ''c1''), (''theme_id'', JNull)]"
    by (simp add: example_world_def where_fetch_def get_attr_def)
  have paths:
    "default_layout_path example_env ''no-such-page'' = ''./templates/layout/undefined''"
    "default_layout_path example_env ''broken'' = ''./templates/layout/default.hbs''"
    "default_page_path ''broken'' = ''./templates/broken.hbs''"
    by (simp_all add: example_env_def example_defaultLayouts_def default_layout_path_def
        default_page_path_def)
  have files:
    "map_of (files example_world) ''./templates/layout/undefined'' = None"
    "map_of (files example_world) ''./templates/layout/default.hbs'' = Some ''<html>{{{content}}}</html>''"
    "map_of (files example_world) ''./templates/broken.hbs'' = Some ''{{''"
    by (simp_all add: example_world_def)
  have broken: "handlebars_compile example_env ''{{'' [] = Inl (JsError ''Parse error on line 1'')"
    by (simp add: example_env_def example_compile_def)
  have a: "fst (getThemedTemplate example_env (JStr ''c1'') ''no-such-page'' [] example_world) =
     Inl (ENOENT ''./templates/layout/undefined'')"
    by (simp add: no_template_outcome [OF example_c1_no_template] paths files)
  have b: "fst (getThemedTemplate example_env (JStr ''c1'') ''broken'' [] example_world) =
     Inl (JsError ''Parse error on line 1'')"
    by (simp add: no_template_outcome [OF example_c1_no_template] paths files broken)
  from a b c show ?thesis by (simp add: renderThemedTemplate_eq paths files)
qed

subsection \<open>The facade and the guard\<close>

text \<open>
  Claim C4. For all inputs \<open>renderThemedTemplate\<close> returns exactly the
  \<open>renderedTemplate\<close> component of \<open>getThemedTemplate\<close> on the same arguments: a
  rejection is passed on unchanged, and nothing else is done to the state.
\<close>

theorem renderThemedTemplate_thin_wrapper:
  "renderThemedTemplate e clientId page ctx w =
     (case getThemedTemplate e clientId page ctx w of
        (Inl err, w') \<Rightarrow> (Inl err, w')
      | (Inr r, w') \<Rightarrow> (Inr (renderedTemplate r), w'))"
  by (simp add: renderThemedTemplate_eq split: prod.splits sum.splits)

text \<open>
  Claim C5. For every falsy client identifier (the empty string, \<open>undefined\<close>,
  \<open>null\<close>), every page name and every context, \<open>fetchTemplate\<close> and
  \<open>getThemedTemplate\<close> reject with their assertion's error and leave the world as it
  was: no database fetch and no file read is logged.
\<close>

theorem missing_clientId_fails_before_io:
  assumes "\<not> truthy clientId"
  shows "fetchTemplate e clientId page w =
           (Inl (JsError ''clientId is required in ThemeService::fetchTemplate''), w) \<and>
         getThemedTemplate e clientId page ctx w =
           (Inl (JsError ''clientId is required in ThemeService::getThemedTemplate''), w) \<and>
         io_log (snd (fetchTemplate e clientId page w)) = io_log w \<and>
         io_log (snd (getThemedTemplate e clientId page ctx w)) = io_log w"
  using assms by (simp add: fetchTemplate_falsy getThemedTemplate_falsy)

theorem missing_clientId_fails_before_io_witness:
  "(\<not> truthy (JStr '''') \<and> \<not> truthy JUndefined \<and> \<not> truthy JNull) \<and>
   fetchTemplate example_env (JStr '''') ''forgot-password'' example_world =
     (Inl (JsError ''clientId is required in ThemeService::fetchTemplate''), example_world) \<and>
   getThemedTemplate example_env JUndefined ''forgot-password'' [] example_world =
     (Inl (JsError ''clientId is required in ThemeService::getThemedTemplate''), example_world) \<and>
   getThemedTemplate example_env JNull ''forgot-password'' [] example_world =
     (Inl (JsError ''clientId is required in ThemeService::getThemedTemplate''), example_world) \<and>
   io_log (snd (getThemedTemplate example_env (JStr '''') ''forgot-password'' [] example_world)) = []"
proof -
  have f: "\<not> truthy (JStr '''')" "\<not> truthy JUndefined" "\<not> truthy JNull" by simp_all
  have "io_log example_world = []" by (simp add: example_world_def)
  with missing_clientId_fails_before_io [OF f(1), of example_env "''forgot-password''" example_world "[]"]
    missing_clientId_fails_before_io [OF f(2), of example_env "''forgot-password''" example_world "[]"]
    missing_clientId_fails_before_io [OF f(3), of example_env "''forgot-password''" example_world "[]"]
  show ?thesis by simp
qed

text \<open>
  Claim C6. When there is no custom template and the default layout file or the default
  page file is missing, \<open>getThemedTemplate\<close> (and \<open>renderThemedTemplate\<close> through it)
  returns no result: it rejects with the file-not-found error of the missing file.
\<close>

theorem missing_default_asset_propagates:
  assumes "fst (fetchTemplate e clientId page w) = Inr None"
    and "map_of (files w) (default_layout_path e page) = None \<or>
         map_of (files w) (default_page_path page) = None"
  shows "\<exists>path. (path = default_layout_path e page \<or> path = default_page_path page) \<and>
           map_of (files w) path = None \<and>
           fst (getThemedTemplate e clientId page ctx w) = Inl (ENOENT path) \<and>
           fst (renderThemedTemplate e clientId page ctx w) = Inl (ENOENT path)"
proof -
  let ?w1 = "snd (fetchTemplate e clientId page w)"
  have g: "fst (getThemedTemplate e clientId page ctx w) =
             map_sum id (\<lambda>h. \<lparr>template = None, renderedTemplate = h\<rparr>) (fst (default_rendering e page ctx ?w1))"
    using assms(1) by (rule getThemedTemplate_no_template)
  show ?thesis
  proof (cases "map_of (files w) (default_layout_path e page)")
    case None
    then have "fst (default_rendering e page ctx ?w1) = Inl (ENOENT (default_layout_path e page))"
      by (simp add: default_rendering_fst fetchTemplate_files)
    with g None show ?thesis by (auto simp: renderThemedTemplate_eq)
  next
    case (Some layoutCode)
    with assms(2) have p: "map_of (files w) (default_page_path page) = None" by simp
    with Some have "fst (default_rendering e page ctx ?w1) = Inl (ENOENT (default_page_path page))"
      by (simp add: default_rendering_fst fetchTemplate_files)
    with g p show ?thesis by (auto simp: renderThemedTemplate_eq)
  qed
qed

theorem missing_default_asset_propagates_witness:
  "fst (fetchTemplate example_env (JStr ''c1'') ''no-such-page'' example_world) = Inr None \<and>
   map_of (files example_world) (default_page_path ''no-such-page'') = None \<and>
   (\<exists>path. map_of (files example_world) path = None \<and>
      fst (getThemedTemplate example_env (JStr ''c1'') ''no-such-page'' [] example_world) = Inl (ENOENT path) \<and>
      fst (renderThemedTemplate example_env (JStr ''c1'') ''no-such-page'' [] example_world) = Inl (ENOENT path))"
proof -
  have h2: "map_of (files example_world) (default_page_path ''no-such-page'') = None"
    by (simp add: example_world_def default_page_path_def)
  then have h2': "map_of (files example_world) (default_layout_path example_env ''no-such-page'') = None \<or>
         map_of (files example_world) (default_page_path ''no-such-page'') = None"
    by blast
  from missing_default_asset_propagates [OF example_c1_no_template h2', of "[]"] example_c1_no_template h2
  show ?thesis by blast
qed

subsection \<open>The template component of the result\<close>

lemma fetchTemplate_io_log:
  "\<exists>evs. io_log (snd (fetchTemplate e clientId page w)) = io_log w @ evs \<and>
         (\<forall>path. ReadFile path \<notin> set evs)"
proof (cases "truthy clientId")
  case True
  then show ?thesis
    by (auto simp: fetchTemplate_truthy Let_def log_event_def split: option.splits)
next
  case False
  then show ?thesis by (simp add: fetchTemplate_falsy)
qed

text \<open>
  Claim C8. On every input on which \<open>fetchTemplate\<close> returns, \<open>getThemedTemplate\<close>
  pairs what \<open>fetchTemplate\<close> returned with the HTML: with false it reads the default
  files and returns false with their rendering, with a template it returns that template
  with what the template's own \<open>render\<close> produced. Conversely the template component of
  every result is what \<open>fetchTemplate\<close> returns, and it is false exactly when the default
  layout file was read during the call.
\<close>

theorem getThemedTemplate_template_component:
  "(\<forall>layoutCode templateCode content html.
      fst (fetchTemplate e clientId page w) = Inr None \<and>
      map_of (files w) (default_layout_path e page) = Some layoutCode \<and>
      map_of (files w) (default_page_path page) = Some templateCode \<and>
      handlebars_compile e templateCode ctx = Inr content \<and>
      handlebars_compile e layoutCode (object_assign [] [ctx, [(''content'', JStr content)]]) = Inr html
      \<longrightarrow> fst (getThemedTemplate e clientId page ctx w) = Inr \<lparr>template = None, renderedTemplate = html\<rparr>) \<and>
   (\<forall>t html.
      fst (fetchTemplate e clientId page w) = Inr (Some t) \<and> template_render e t page ctx = Inr html
      \<longrightarrow> fst (getThemedTemplate e clientId page ctx w) = Inr \<lparr>template = Some t, renderedTemplate = html\<rparr>) \<and>
   (\<forall>r. fst (getThemedTemplate e clientId page ctx w) = Inr r \<longrightarrow>
      fst (fetchTemplate e clientId page w) = Inr (template r) \<and>
      (template r = None \<longleftrightarrow>
         (\<exists>evs. io_log (snd (getThemedTemplate e clientId page ctx w)) = io_log w @ evs \<and>
                ReadFile (default_layout_path e page) \<in> set evs)) \<and>
      (template r = None \<longrightarrow>
         (\<exists>layoutCode templateCode content.
            map_of (files w) (default_layout_path e page) = Some layoutCode \<and>
            map_of (files w) (default_page_path page) = Some templateCode \<and>
            handlebars_compile e templateCode ctx = Inr content \<and>
            handlebars_compile e layoutCode (object_assign [] [ctx, [(''content'', JStr content)]]) =
              Inr (renderedTemplate r))) \<and>
      (\<forall>t. template r = Some t \<longrightarrow> template_render e t page ctx = Inr (renderedTemplate r)))"
proof (intro conjI allI impI)
  fix layoutCode templateCode content html
  assume h: "fst (fetchTemplate e clientId page w) = Inr None \<and>
      map_of (files w) (default_layout_path e page) = Some layoutCode \<and>
      map_of (files w) (default_page_path page) = Some templateCode \<and>
      handlebars_compile e templateCode ctx = Inr content \<and>
      handlebars_compile e layoutCode (object_assign [] [ctx, [(''content'', JStr content)]]) = Inr html"
  then have "fst (fetchTemplate e clientId page w) = Inr None" by simp
  from no_template_outcome [OF this, of ctx] h
  show "fst (getThemedTemplate e clientId page ctx w) = Inr \<lparr>template = None, renderedTemplate = html\<rparr>"
    by simp
next
  fix t html
  assume h: "fst (fetchTemplate e clientId page w) = Inr (Some t) \<and> template_render e t page ctx = Inr html"
  then have t: "truthy clientId" by (blast intro: fetchTemplate_Inr_truthy)
  from h obtain w1 where "fetchTemplate e clientId page w = (Inr (Some t), w1)"
    by (cases "fetchTemplate e clientId page w") simp
  with t h show "fst (getThemedTemplate e clientId page ctx w) = Inr \<lparr>template = Some t, renderedTemplate = html\<rparr>"
    by (simp add: getThemedTemplate_truthy)
next
  fix r
  assume ret: "fst (getThemedTemplate e clientId page ctx w) = Inr r"
  have t: "truthy clientId"
    using ret by (cases "truthy clientId") (simp_all add: getThemedTemplate_falsy)
  obtain fr w1 where f: "fetchTemplate e clientId page w = (fr, w1)"
    by (cases "fetchTemplate e clientId page w")
  from fetchTemplate_io_log [of e clientId page w] f
  obtain evs1 where evs1: "io_log w1 = io_log w @ evs1" "\<forall>path. ReadFile path \<notin> set evs1"
    by auto
  have all: "fst (fetchTemplate e clientId page w) = Inr (template r) \<and>
      (template r = None \<longleftrightarrow>
         (\<exists>evs. io_log (snd (getThemedTemplate e clientId page ctx w)) = io_log w @ evs \<and>
                ReadFile (default_layout_path e page) \<in> set evs)) \<and>
      (template r = None \<longrightarrow>
         (\<exists>layoutCode templateCode content.
            map_of (files w) (default_layout_path e page) = Some layoutCode \<and>
            map_of (files w) (default_page_path page) = Some templateCode \<and>
            handlebars_compile e templateCode ctx = Inr content \<and>
            handlebars_compile e layoutCode (object_assign [] [ctx, [(''content'', JStr content)]]) =
              Inr (renderedTemplate r))) \<and>
      (\<forall>t. template r = Some t \<longrightarrow> template_render e t page ctx = Inr (renderedTemplate r))"
  proof (cases fr)
    case (Inl err)
    with ret t f show ?thesis by (simp add: getThemedTemplate_truthy)
  next
    case (Inr tpl)
    show ?thesis
    proof (cases tpl)
      case None
      with Inr f have none: "fst (fetchTemplate e clientId page w) = Inr None" by simp
      from Inr None f t have g: "getThemedTemplate e clientId page ctx w =
          (map_sum id (\<lambda>h. \<lparr>template = None, renderedTemplate = h\<rparr>) (fst (default_rendering e page ctx w1)),
           snd (default_rendering e page ctx w1))"
        by (simp add: getThemedTemplate_truthy)
      from ret no_template_outcome [OF none, of ctx]
      have tr: "template r = None" and
        ex: "\<exists>layoutCode templateCode content.
            map_of (files w) (default_layout_path e page) = Some layoutCode \<and>
            map_of (files w) (default_page_path page) = Some templateCode \<and>
            handlebars_compile e templateCode ctx = Inr content \<and>
            handlebars_compile e layoutCode (object_assign [] [ctx, [(''content'', JStr content)]]) =
              Inr (renderedTemplate r)"
        by (auto split: option.splits sum.splits)
      have "io_log (snd (getThemedTemplate e clientId page ctx w)) =
              io_log w @ (evs1 @ (case map_of (files w1) (default_layout_path e page) of
                 None \<Rightarrow> [ReadFile (default_layout_path e page)]
               | Some layoutCode \<Rightarrow> [ReadFile (default_layout_path e page), ReadFile (default_page_path page)]))"
        by (simp add: g default_rendering_snd evs1)
      moreover have "ReadFile (default_layout_path e page) \<in> set (evs1 @
               (case map_of (files w1) (default_layout_path e page) of
                 None \<Rightarrow> [ReadFile (default_layout_path e page)]
               | Some layoutCode \<Rightarrow> [ReadFile (default_layout_path e page), ReadFile (default_page_path page)]))"
        by (simp split: option.splits)
      ultimately have "\<exists>evs. io_log (snd (getThemedTemplate e clientId page ctx w)) = io_log w @ evs \<and>
                   ReadFile (default_layout_path e page) \<in> set evs"
        by blast
      with tr ex none show ?thesis by simp
    next
      case (Some t')
      with Inr f t have g: "getThemedTemplate e clientId page ctx w =
          (map_sum id (\<lambda>h. \<lparr>template = Some t', renderedTemplate = h\<rparr>) (template_render e t' page ctx), w1)"
        by (simp add: getThemedTemplate_truthy)
      with ret obtain h where h: "template_render e t' page ctx = Inr h"
        "r = \<lparr>template = Some t', renderedTemplate = h\<rparr>"
        by (cases "template_render e t' page ctx") auto
      have "\<not> (\<exists>evs. io_log (snd (getThemedTemplate e clientId page ctx w)) = io_log w @ evs \<and>
                   ReadFile (default_layout_path e page) \<in> set evs)"
        using evs1 by (auto simp: g)
      with h f Inr Some show ?thesis by simp
    qed
  qed
  from all show "fst (fetchTemplate e clientId page w) = Inr (template r)" by blast
  from all show "(template r = None) =
         (\<exists>evs. io_log (snd (getThemedTemplate e clientId page ctx w)) = io_log w @ evs \<and>
                ReadFile (default_layout_path e page) \<in> set evs)" by blast
  from all show "\<exists>layoutCode templateCode content.
            map_of (files w) (default_layout_path e page) = Some layoutCode \<and>
            map_of (files w) (default_page_path page) = Some templateCode \<and>
            handlebars_compile e templateCode ctx = Inr content \<and>
            handlebars_compile e layoutCode (object_assign [] [ctx, [(''content'', JStr content)]]) =
              Inr (renderedTemplate r)" if "template r = None"
    using that by blast
  from all show "template_render e t page ctx = Inr (renderedTemplate r)" if "template r = Some t" for t
    using that by blast
qed

theorem getThemedTemplate_template_component_witness:
  "fst (fetchTemplate example_env (JStr ''c1'') ''forgot-password'' example_world) = Inr None \<and>
   fst (getThemedTemplate example_env (JStr ''c1'') ''forgot-password'' [] example_world) =
     Inr \<lparr>template = None, renderedTemplate = ''<html><form></form></html>''\<rparr> \<and>
   (\<exists>evs. io_log (snd (getThemedTemplate example_env (JStr ''c1'') ''forgot-password'' [] example_world)) =
            io_log example_world @ evs \<and>
          ReadFile (default_layout_path example_env ''forgot-password'') \<in> set evs) \<and>
   fst (fetchTemplate example_env (JStr ''c2'') ''forgot-password'' example_world) =
     Inr (Some \<lparr>attributes = [(''id'', JNum 1), (''theme_id'', JNum 7),
                              (''name'', JStr ''forgot-password''), (''layout_id'', JNum 3)],
                layout = Some [(''id'', JNum 3), (''code'', JStr ''<html>'')]\<rparr>) \<and>
   fst (getThemedTemplate example_env (JStr ''c2'') ''forgot-password'' [] example_world) =
     Inr \<lparr>template = Some \<lparr>attributes = [(''id'', JNum 1), (''theme_id'', JNum 7),
                                         (''name'', JStr ''forgot-password''), (''layout_id'', JNum 3)],
                           layout = Some [(''id'', JNum 3), (''code'', JStr ''<html>'')]\<rparr>,
          renderedTemplate = ''custom:forgot-password''\<rparr> \<and>
   \<not> (\<exists>evs. io_log (snd (getThemedTemplate example_env (JStr ''c2'') ''forgot-password'' [] example_world)) =
            io_log example_world @ evs \<and>
          ReadFile (default_layout_path example_env ''forgot-password'') \<in> set evs)"
proof -
  let ?t = "\<lparr>attributes = [(''id'', JNum 1), (''theme_id'', JNum 7),
                              (''name'', JStr ''forgot-password''), (''layout_id'', JNum 3)],
                layout = Some [(''id'', JNum 3), (''code'', JStr ''<html>'')]\<rparr>"
  let ?r1 = "\<lparr>template = None, renderedTemplate = ''<html><form></form></html>''\<rparr>"
  let ?r2 = "\<lparr>template = Some ?t, renderedTemplate = ''custom:forgot-password''\<rparr>"
  note thm1 = getThemedTemplate_template_component
    [of example_env "JStr ''c1''" "''forgot-password''" example_world "[]"]
  note thm2 = getThemedTemplate_template_component
    [of example_env "JStr ''c2''" "''forgot-password''" example_world "[]"]
  have f1: "fst (fetchTemplate example_env (JStr ''c1'') ''forgot-password'' example_world) = Inr None"
    by (rule example_c1_no_template)
  have f2: "fst (fetchTemplate example_env (JStr ''c2'') ''forgot-password'' example_world) = Inr (Some ?t)"
    by (simp add: fetchTemplate_truthy example_world_def example_env_def where_fetch_def get_attr_def
        Let_def)
  have d: "map_of (files example_world) (default_layout_path example_env ''forgot-password'') =
             Some ''<html>{{{content}}}</html>'' \<and>
           map_of (files example_world) (default_page_path ''forgot-password'') = Some ''<form></form>'' \<and>
           handlebars_compile example_env ''<form></form>'' [] = Inr ''<form></form>'' \<and>
           handlebars_compile example_env ''<html>{{{content}}}</html>''
             (object_assign [] [[], [(''content'', JStr ''<form></form>'')]]) = Inr ''<html><form></form></html>''"
    by (simp add: example_world_def example_env_def example_defaultLayouts_def default_layout_path_def
        default_page_path_def example_compile_def get_attr_def object_assign_def set_prop_def)
  have c: "template_render example_env ?t ''forgot-password'' [] = Inr ''custom:forgot-password''"
    by (simp add: example_env_def)
  from thm1 f1 d have g1:
    "fst (getThemedTemplate example_env (JStr ''c1'') ''forgot-password'' [] example_world) = Inr ?r1"
    by blast
  from thm2 f2 c have g2:
    "fst (getThemedTemplate example_env (JStr ''c2'') ''forgot-password'' [] example_world) = Inr ?r2"
    by blast
  from thm1 g1 have l1:
    "template ?r1 = None \<longleftrightarrow>
       (\<exists>evs. io_log (snd (getThemedTemplate example_env (JStr ''c1'') ''forgot-password'' [] example_world)) =
            io_log example_world @ evs \<and>
          ReadFile (default_layout_path example_env ''forgot-password'') \<in> set evs)"
    by blast
  from thm2 g2 have l2:
    "template ?r2 = None \<longleftrightarrow>
       (\<exists>evs. io_log (snd (getThemedTemplate example_env (JStr ''c2'') ''forgot-password'' [] example_world)) =
            io_log example_world @ evs \<and>
          ReadFile (default_layout_path example_env ''forgot-password'') \<in> set evs)"
    by blast
  from l1 have l1': "\<exists>evs. io_log (snd (getThemedTemplate example_env (JStr ''c1'') ''forgot-password'' [] example_world)) =
            io_log example_world @ evs \<and>
          ReadFile (default_layout_path example_env ''forgot-password'') \<in> set evs"
    by simp
  from l2 have l2': "\<not> (\<exists>evs. io_log (snd (getThemedTemplate example_env (JStr ''c2'') ''forgot-password'' [] example_world)) =
            io_log example_world @ evs \<and>
          ReadFile (default_layout_path example_env ''forgot-password'') \<in> set evs)"
    by simp
  from f1 g1 l1' f2 g2 l2' show ?thesis by blast
qed

section \<open>Properties of the user controller\<close>

subsection \<open>Changing a password\<close>





section \<open>Properties of \<open>expandDotPaths\<close>\<close>

subsection \<open>\<open>baseSet\<close> and nested paths\<close>












subsection \<open>The loop over the keys\<close>









end
